theory Spec2Isabelle
  imports Main
begin

section \<open>The teller HTTP front door (src/teller/http.go)\<close>

text \<open>
  A shallow embedding of \<^verbatim>\<open>http.go\<close>. Go strings are \<^typ>\<open>string\<close>, a Go
  \<^verbatim>\<open>error\<close> is an \<^typ>\<open>string option\<close> carrying the text of \<^verbatim>\<open>err.Error()\<close>
  (\<^term>\<open>None\<close> is \<^verbatim>\<open>nil\<close>), a \<^verbatim>\<open>time.Time\<close> is the instant it denotes (an
  \<^typ>\<open>int\<close>; \<^verbatim>\<open>UTC()\<close> does not move the instant) and \<^verbatim>\<open>time.Duration\<close> is an
  \<^typ>\<open>int\<close> of nanoseconds. Calls to the logger write nothing to the response and
  return nothing that is branched on; they are left out of the model.
\<close>

subsection \<open>Configuration\<close>

type_synonym error = "string option"

record Throttle =
  ThrottleMax :: int
  ThrottleDuration :: int

record HTTPConfig =
  HTTPAddr :: string
  HTTPSAddr :: string
  StaticDir :: string
  StartAt :: int
  AutoTLSHost :: string
  TLSCert :: string
  TLSKey :: string
  ThrottleCfg :: Throttle

text \<open>\<^verbatim>\<open>func (c HTTPConfig) Validate() error\<close>: the five checks, in the order of the source.\<close>

definition Validate :: "HTTPConfig \<Rightarrow> error" where
  "Validate c =
    (if HTTPAddr c = [] \<and> HTTPSAddr c = [] then
       Some ''at least one of -http-service-addr, -https-service-addr must be set''
     else if HTTPSAddr c \<noteq> [] \<and> AutoTLSHost c = [] \<and> (TLSCert c = [] \<or> TLSKey c = []) then
       Some ''when using -tls, either -auto-tls-host or both -tls-cert and -tls-key must be set''
     else if (TLSCert c = [] \<and> TLSKey c \<noteq> []) \<or> (TLSCert c \<noteq> [] \<and> TLSKey c = []) then
       Some ''-tls-cert and -tls-key must be set or unset together''
     else if AutoTLSHost c \<noteq> [] \<and> (TLSKey c \<noteq> [] \<or> TLSCert c \<noteq> []) then
       Some ''either use -auto-tls-host or both -tls-key and -tls-cert''
     else if HTTPSAddr c = [] \<and> (AutoTLSHost c \<noteq> [] \<or> TLSKey c \<noteq> [] \<or> TLSCert c \<noteq> []) then
       Some ''-auto-tls-host or -tls-key or -tls-cert is set but -tls is not enabled''
     else None)"

text \<open>A configuration builder for concrete instances: the fields \<^verbatim>\<open>Validate\<close> and
  \<^verbatim>\<open>Run\<close> read; static directory, start time and throttle are fixed.\<close>

definition mkConfig :: "string \<Rightarrow> string \<Rightarrow> string \<Rightarrow> string \<Rightarrow> string \<Rightarrow> HTTPConfig" where
  "mkConfig http https host cert key =
    \<lparr>HTTPAddr = http, HTTPSAddr = https, StaticDir = ''./web/build'', StartAt = 1000,
     AutoTLSHost = host, TLSCert = cert, TLSKey = key,
     ThrottleCfg = \<lparr>ThrottleMax = 60, ThrottleDuration = 60000000000\<rparr>\<rparr>"

subsection \<open>Listeners, the shutdown gate and the security middleware\<close>

text \<open>An \<^verbatim>\<open>http.Server\<close> as \<^verbatim>\<open>setupHTTPListener\<close> fills it. \<^verbatim>\<open>AutoCertHost\<close> stands for
  \<^verbatim>\<open>TLSConfig\<close>: the host that the autocert manager whitelists, when \<^verbatim>\<open>Run\<close> installs one.\<close>

record Server =
  Addr :: string
  ReadTimeout :: int
  WriteTimeout :: int
  IdleTimeout :: int
  AutoCertHost :: "string option"

definition second :: int where
  "second = 1000000000"

definition shutdownTimeout :: int where
  "shutdownTimeout = second * 5"

definition serverReadTimeout :: int where
  "serverReadTimeout = second * 10"

definition serverWriteTimeout :: int where
  "serverWriteTimeout = second * 60"

definition serverIdleTimeout :: int where
  "serverIdleTimeout = second * 120"

definition setupHTTPListener :: "string \<Rightarrow> Server" where
  "setupHTTPListener addr =
    \<lparr>Addr = addr, ReadTimeout = serverReadTimeout, WriteTimeout = serverWriteTimeout,
     IdleTimeout = serverIdleTimeout, AutoCertHost = None\<rparr>"

text \<open>The channel \<^verbatim>\<open>hs.quit\<close> points to is open or closed; the field itself may be \<^verbatim>\<open>nil\<close>
  (\<^term>\<open>None\<close>).\<close>

datatype chan = ChanOpen | ChanClosed

record httpServer =
  Config :: HTTPConfig
  httpListener :: "Server option"
  httpsListener :: "Server option"
  quit :: "chan option"

definition newHTTPServer :: "HTTPConfig \<Rightarrow> httpServer" where
  "newHTTPServer cfg = \<lparr>Config = cfg, httpListener = None, httpsListener = None, quit = None\<rparr>"

text \<open>The \<^verbatim>\<open>secure.Options\<close> that \<^verbatim>\<open>configureSecureMiddleware\<close> passes to \<^verbatim>\<open>secure.New\<close>.\<close>

record SecureOptions =
  AllowedHosts :: "string list"
  SSLRedirect :: bool
  SSLHost :: string
  STSSeconds :: int
  STSIncludeSubdomains :: bool
  STSPreload :: bool
  FrameDeny :: bool
  ContentTypeNosniff :: bool
  BrowserXssFilter :: bool
  ReferrerPolicy :: string

definition configureSecureMiddleware :: "string \<Rightarrow> string list \<Rightarrow> SecureOptions" where
  "configureSecureMiddleware sslHost allowedHosts =
    (let sslRedirect = (if sslHost = [] then False else True) in
     \<lparr>AllowedHosts = allowedHosts, SSLRedirect = sslRedirect, SSLHost = sslHost,
      STSSeconds = 31536000, STSIncludeSubdomains = False, STSPreload = False,
      FrameDeny = True, ContentTypeNosniff = True, BrowserXssFilter = True,
      ReferrerPolicy = ''no-referrer''\<rparr>)"

text \<open>Lines 116-130 of \<^verbatim>\<open>Run\<close>: the pair \<^verbatim>\<open>(sslHost, allowedHosts)\<close>.\<close>

definition Run_hosts :: "HTTPConfig \<Rightarrow> string \<times> string list" where
  "Run_hosts cfg =
    (if AutoTLSHost cfg = [] then (HTTPSAddr cfg, [])
     else (AutoTLSHost cfg, [AutoTLSHost cfg]))"

text \<open>The sequential part of \<^verbatim>\<open>Run\<close>: a fresh open gate, the middleware, and the listeners
  stored in the server (the HTTPS one with the autocert configuration when \<^verbatim>\<open>AutoTLSHost\<close>
  is set).\<close>

definition Run_setup :: "httpServer \<Rightarrow> httpServer \<times> SecureOptions" where
  "Run_setup hs =
    (let cfg = Config hs;
         hs1 = hs\<lparr>quit := Some ChanOpen\<rparr>;
         (sslHost, allowedHosts) = Run_hosts cfg;
         secureMiddleware = configureSecureMiddleware sslHost allowedHosts;
         hs2 = (if HTTPAddr cfg \<noteq> [] then hs1\<lparr>httpListener := Some (setupHTTPListener (HTTPAddr cfg))\<rparr>
                else hs1);
         hs3 = (if HTTPSAddr cfg \<noteq> [] then
                  hs2\<lparr>httpsListener := Some ((setupHTTPListener (HTTPSAddr cfg))
                    \<lparr>AutoCertHost := (if AutoTLSHost cfg \<noteq> [] then Some (AutoTLSHost cfg) else None)\<rparr>)\<rparr>
                else hs2)
     in (hs3, secureMiddleware))"

text \<open>The certificate and key files handed to \<^verbatim>\<open>ListenAndServeTLS\<close>: both empty under
  autocert.\<close>

definition Run_tlsFiles :: "HTTPConfig \<Rightarrow> string \<times> string" where
  "Run_tlsFiles cfg = (if AutoTLSHost cfg \<noteq> [] then ([], []) else (TLSCert cfg, TLSKey cfg))"

text \<open>
  What is outside the program while \<^verbatim>\<open>Run\<close> blocks: what each listener's serve call
  returns, which case the \<^verbatim>\<open>select\<close> of the two-listener branch takes, and the value of
  \<^verbatim>\<open>hs.quit\<close> at the moment the \<^verbatim>\<open>select\<close> of \<^verbatim>\<open>handleListenErr\<close> reads it (a concurrent
  \<^verbatim>\<open>Shutdown\<close> closes the channel and later stores \<^verbatim>\<open>nil\<close>).
\<close>

datatype select_case = RecvErrC string | RecvQuit | RecvDone

record Schedule =
  httpServe :: error
  httpsServe :: "string \<Rightarrow> string \<Rightarrow> error"
  selected :: select_case
  quitSeen :: "chan option"

datatype outcome = Returned error | Panicked string

text \<open>The closure \<^verbatim>\<open>f\<close> that each branch of \<^verbatim>\<open>Run\<close> passes to \<^verbatim>\<open>handleListenErr\<close>. A serve
  call on a \<^verbatim>\<open>nil\<close> listener dereferences a nil pointer.\<close>

definition serve :: "Schedule \<Rightarrow> httpServer \<Rightarrow> string + error" where
  "serve s hs =
    (let cfg = Config hs; (tlsCert, tlsKey) = Run_tlsFiles cfg in
     if HTTPSAddr cfg \<noteq> [] then
       (if HTTPAddr cfg = [] then
          (case httpsListener hs of
             None \<Rightarrow> Inl ''nil pointer dereference''
           | Some ln \<Rightarrow> Inr (httpsServe s tlsCert tlsKey))
        else
          (case selected s of
             RecvErrC err \<Rightarrow> Inr (Some err)
           | RecvQuit \<Rightarrow> Inr None
           | RecvDone \<Rightarrow> Inr None))
     else
       (case httpListener hs of
          None \<Rightarrow> Inl ''nil pointer dereference''
        | Some ln \<Rightarrow> Inr (httpServe s)))"

text \<open>\<^verbatim>\<open>handleListenErr\<close>: a receive from a closed channel succeeds, one from an open or a
  \<^verbatim>\<open>nil\<close> channel would block, so the \<^verbatim>\<open>default\<close> case runs.\<close>

definition handleListenErr :: "chan option \<Rightarrow> string + error \<Rightarrow> outcome" where
  "handleListenErr q f =
    (case f of
       Inl p \<Rightarrow> Panicked p
     | Inr None \<Rightarrow> Returned None
     | Inr (Some err) \<Rightarrow>
         (case q of
            Some ChanClosed \<Rightarrow> Returned None
          | _ \<Rightarrow> Returned (Some (''http serve failed: '' @ err))))"

record RunResult =
  runOutcome :: outcome
  runServer :: httpServer
  runSecure :: SecureOptions

definition Run :: "Schedule \<Rightarrow> httpServer \<Rightarrow> RunResult" where
  "Run s hs =
    (let (hs', secureMiddleware) = Run_setup hs in
     \<lparr>runOutcome = handleListenErr (quitSeen s) (serve s hs'),
      runServer = hs', runSecure = secureMiddleware\<rparr>)"

text \<open>\<^verbatim>\<open>Shutdown\<close>. Closing a channel that is already closed panics; the drain of a listener
  (\<^verbatim>\<open>ln.Shutdown(ctx)\<close>, bounded by \<^const>\<open>shutdownTimeout\<close>) is the environment's and
  returns an error that is only logged. The effects are listed in the order they happen.\<close>

datatype effect = CloseQuit | ListenerShutdown string int | LogShutdownError string string

definition closeQuit :: "httpServer \<Rightarrow> string + httpServer \<times> effect list" where
  "closeQuit hs =
    (case quit hs of
       None \<Rightarrow> Inr (hs, [])
     | Some ChanOpen \<Rightarrow> Inr (hs\<lparr>quit := Some ChanClosed\<rparr>, [CloseQuit])
     | Some ChanClosed \<Rightarrow> Inl ''close of closed channel'')"

definition shutdown :: "(string \<Rightarrow> Server \<Rightarrow> error) \<Rightarrow> string \<Rightarrow> Server option \<Rightarrow> effect list" where
  "shutdown drain proto ln =
    (case ln of
       None \<Rightarrow> []
     | Some srv \<Rightarrow>
         ListenerShutdown proto shutdownTimeout #
         (case drain proto srv of None \<Rightarrow> [] | Some err \<Rightarrow> [LogShutdownError proto err]))"

definition Shutdown :: "(string \<Rightarrow> Server \<Rightarrow> error) \<Rightarrow> httpServer \<Rightarrow> string + httpServer \<times> effect list" where
  "Shutdown drain hs =
    (case closeQuit hs of
       Inl p \<Rightarrow> Inl p
     | Inr (hs1, es) \<Rightarrow>
         Inr (hs1\<lparr>quit := None\<rparr>,
              es @ shutdown drain ''HTTP'' (httpListener hs1) @ shutdown drain ''HTTPS'' (httpsListener hs1)))"

subsection \<open>Requests, the response writer and the collaborators\<close>

text \<open>\<^verbatim>\<open>http.Header\<close> and \<^verbatim>\<open>url.Values\<close> are both \<^verbatim>\<open>map[string][]string\<close>; \<^verbatim>\<open>Get\<close> returns
  the first value of the key or the empty string, \<^verbatim>\<open>Set\<close> replaces the values by one. The
  keys the handlers use are in canonical form already.\<close>

type_synonym Header = "string \<rightharpoonup> string list"

definition Header_Get :: "Header \<Rightarrow> string \<Rightarrow> string" where
  "Header_Get h k = (case h k of None \<Rightarrow> [] | Some [] \<Rightarrow> [] | Some (v # vs) \<Rightarrow> v)"

definition Header_Set :: "Header \<Rightarrow> string \<Rightarrow> string \<Rightarrow> Header" where
  "Header_Set h k v = h(k \<mapsto> [v])"

record Request =
  Method :: string
  ReqHeader :: Header
  Body :: string
  Query :: Header

definition MethodGet :: string where
  "MethodGet = ''GET''"

definition MethodPost :: string where
  "MethodPost = ''POST''"

definition StatusOK :: nat where
  "StatusOK = 200"

definition StatusBadRequest :: nat where
  "StatusBadRequest = 400"

definition StatusForbidden :: nat where
  "StatusForbidden = 403"

definition StatusMethodNotAllowed :: nat where
  "StatusMethodNotAllowed = 405"

definition StatusUnsupportedMediaType :: nat where
  "StatusUnsupportedMediaType = 415"

text \<open>JSON values, as far as the two response structs need them.\<close>

datatype json = JString string | JArray "json list" | JObject "(string \<times> json) list"

fun json_field :: "json \<Rightarrow> string \<Rightarrow> json option" where
  "json_field (JObject fs) k = map_of fs k"
| "json_field (JString s) k = None"
| "json_field (JArray xs) k = None"

text \<open>What one call wrote to the body: an error envelope (status and the messages handed
  to \<^verbatim>\<open>ErrResponse\<close>) or a JSON document.\<close>

datatype written = ErrBody nat "string list" | JSONBody json

text \<open>An \<^verbatim>\<open>http.ResponseWriter\<close>: the header map, the status line with the headers as the
  first \<^verbatim>\<open>WriteHeader\<close> sent them (later calls change nothing) and the bodies written, in
  order. A \<^verbatim>\<open>Write\<close> before any \<^verbatim>\<open>WriteHeader\<close> sends status 200 first.\<close>

record ResponseWriter =
  header :: Header
  wroteHeader :: "(nat \<times> Header) option"
  bodies :: "written list"

definition newResponseWriter :: ResponseWriter where
  "newResponseWriter = \<lparr>header = Map.empty, wroteHeader = None, bodies = []\<rparr>"

definition WriteHeader :: "ResponseWriter \<Rightarrow> nat \<Rightarrow> ResponseWriter" where
  "WriteHeader w code =
    (case wroteHeader w of
       None \<Rightarrow> w\<lparr>wroteHeader := Some (code, header w)\<rparr>
     | Some sent \<Rightarrow> w)"

definition Write :: "ResponseWriter \<Rightarrow> written \<Rightarrow> ResponseWriter" where
  "Write w b = (let w' = WriteHeader w StatusOK in w'\<lparr>bodies := bodies w' @ [b]\<rparr>)"

definition statusOf :: "ResponseWriter \<Rightarrow> nat option" where
  "statusOf w = map_option fst (wroteHeader w)"

definition sentHeader :: "ResponseWriter \<Rightarrow> string \<Rightarrow> string" where
  "sentHeader w k = (case wroteHeader w of None \<Rightarrow> [] | Some (code, h) \<Rightarrow> Header_Get h k)"

text \<open>Modelled from the spec: \<^verbatim>\<open>httputil.ErrResponse\<close> and \<^verbatim>\<open>httputil.JSONResponse\<close>
  (package \<^verbatim>\<open>src/util/httputil\<close> of the repository is not among the sources). The spec: a
  rejected request gets the HTTP status code and one JSON error object carrying a
  message; a success is \<^verbatim>\<open>200\<close> with the value as JSON. The struct-to-JSON step that
  \<^verbatim>\<open>JSONResponse\<close> performs is written at the call site (the \<^verbatim>\<open>marshal\<close> functions
  below).\<close>

definition ErrResponse :: "ResponseWriter \<Rightarrow> nat \<Rightarrow> string list \<Rightarrow> ResponseWriter" where
  "ErrResponse w code errMsg = Write (WriteHeader w code) (ErrBody code errMsg)"

definition JSONResponse :: "ResponseWriter \<Rightarrow> json \<Rightarrow> ResponseWriter" where
  "JSONResponse w v = Write w (JSONBody v)"

text \<open>Modelled from the spec: \<^verbatim>\<open>scanner.CoinTypeBTC\<close> (package \<^verbatim>\<open>src/scanner\<close> is not among
  the sources), the one member of the supported-currency set; its text is the one the
  comment above \<^verbatim>\<open>BindHandler\<close> gives.\<close>

definition CoinTypeBTC :: string where
  "CoinTypeBTC = ''BTC''"

record bindRequest =
  SkyAddr :: string
  CoinType :: string

record BindResponse =
  DepositAddress :: string
  CoinType :: string

text \<open>\<^verbatim>\<open>exchange.DepositStatus\<close> is not among the sources: the type parameter \<^typ>\<open>'ds\<close>.\<close>

record 'ds StatusResponse =
  Statuses :: "'ds list"

text \<open>The struct tags: every field of the two responses is \<^verbatim>\<open>omitempty\<close>, so
  \<^verbatim>\<open>encoding/json\<close> leaves out an empty string and a slice of length 0 (nil or not).\<close>

definition marshal_BindResponse :: "BindResponse \<Rightarrow> json" where
  "marshal_BindResponse v =
    JObject
      ((if DepositAddress v = [] then [] else [(''deposit_address'', JString (DepositAddress v))]) @
       (if BindResponse.CoinType v = [] then [] else [(''coin_type'', JString (BindResponse.CoinType v))]))"

definition marshal_StatusResponse :: "('ds \<Rightarrow> json) \<Rightarrow> 'ds StatusResponse \<Rightarrow> json" where
  "marshal_StatusResponse enc v =
    JObject (if Statuses v = [] then [] else [(''statuses'', JArray (map enc (Statuses v)))])"

text \<open>What the handlers get from outside: the clock, the formatting of a
  \<^verbatim>\<open>time.Time\<close> by \<^verbatim>\<open>%v\<close>, the JSON decoder on the request body, the address decoder
  \<^verbatim>\<open>cipher.DecodeBase58Address\<close> (only its error is used), the two calls of the service
  (\<^term>\<open>Inl\<close> is the error's text) and the JSON encoding of a deposit status.\<close>

record 'ds Env =
  now :: int
  formatTime :: "int \<Rightarrow> string"
  decodeBody :: "string \<Rightarrow> string + bindRequest"
  DecodeBase58Address :: "string \<Rightarrow> error"
  BindAddress :: "string \<Rightarrow> string + string"
  GetDepositStatuses :: "string \<Rightarrow> string + 'ds list"
  encodeStatus :: "'ds \<Rightarrow> json"

datatype call = CallBindAddress string | CallGetDepositStatuses string

text \<open>What a handler leaves: the response writer and the calls it made to the service.\<close>

record Served =
  response :: ResponseWriter
  calls :: "call list"

subsection \<open>The endpoint handlers\<close>

definition errorResponse :: "ResponseWriter \<Rightarrow> nat \<Rightarrow> string \<Rightarrow> ResponseWriter" where
  "errorResponse w code err = ErrResponse w code []"

definition readyToStart :: "'ds Env \<Rightarrow> ResponseWriter \<Rightarrow> int \<Rightarrow> bool \<times> ResponseWriter" where
  "readyToStart e w startAt =
    (if now e > startAt then (True, w)
     else (let msg = ''Event starts at '' @ formatTime e startAt in
           (False, ErrResponse w StatusForbidden [msg])))"

fun methodIn :: "string \<Rightarrow> string list \<Rightarrow> bool" where
  "methodIn m [] = False"
| "methodIn m (a # allowed) = (if m = a then True else methodIn m allowed)"

fun strings_Join :: "string list \<Rightarrow> string \<Rightarrow> string" where
  "strings_Join [] sep = []"
| "strings_Join [x] sep = x"
| "strings_Join (x # y # zs) sep = x @ sep @ strings_Join (y # zs) sep"

definition validMethod :: "ResponseWriter \<Rightarrow> Request \<Rightarrow> string list \<Rightarrow> bool \<times> ResponseWriter" where
  "validMethod w r allowed =
    (if methodIn (Method r) allowed then (True, w)
     else (let w1 = w\<lparr>header := Header_Set (header w) ''Allow'' (strings_Join allowed '', '')\<rparr>;
               status = StatusMethodNotAllowed
           in (False, errorResponse w1 status ''Invalid request method'')))"

definition verifySkycoinAddress :: "'ds Env \<Rightarrow> ResponseWriter \<Rightarrow> string \<Rightarrow> bool \<times> ResponseWriter" where
  "verifySkycoinAddress e w skyAddr =
    (case DecodeBase58Address e skyAddr of
       Some err \<Rightarrow>
         (let msg = ''Invalid skycoin address: '' @ err in
          (False, ErrResponse w StatusBadRequest [msg]))
     | None \<Rightarrow> (True, w))"

text \<open>\<^verbatim>\<open>BindHandler\<close>. The two rejecting cases of the \<^verbatim>\<open>switch\<close> on the coin type write
  their error and, having no \<^verbatim>\<open>return\<close>, go on to the address check like the accepting
  case.\<close>

definition BindHandler :: "'ds Env \<Rightarrow> httpServer \<Rightarrow> Request \<Rightarrow> ResponseWriter \<Rightarrow> Served" where
  "BindHandler e hs r w =
    (let w1 = w\<lparr>header := Header_Set (header w) ''Accept'' ''application/json''\<rparr>;
         (okMethod, w2) = validMethod w1 r [MethodPost]
     in
     if \<not> okMethod then \<lparr>response = w2, calls = []\<rparr>
     else if Header_Get (ReqHeader r) ''Content-Type'' \<noteq> ''application/json'' then
       \<lparr>response = errorResponse w2 StatusUnsupportedMediaType ''Invalid content type'', calls = []\<rparr>
     else
       (case decodeBody e (Body r) of
          Inl err \<Rightarrow>
            \<lparr>response = errorResponse w2 StatusBadRequest (''Invalid json request body: '' @ err),
             calls = []\<rparr>
        | Inr bindReq \<Rightarrow>
            if SkyAddr bindReq = [] then
              \<lparr>response = errorResponse w2 StatusBadRequest ''Missing skyaddr'', calls = []\<rparr>
            else
              (let w3 =
                 (if bindRequest.CoinType bindReq = CoinTypeBTC then w2
                  else if bindRequest.CoinType bindReq = [] then
                    errorResponse w2 StatusBadRequest ''Missing coin_type''
                  else errorResponse w2 StatusBadRequest ''Invalid coin_type'');
                 (okAddr, w4) = verifySkycoinAddress e w3 (SkyAddr bindReq)
               in
               if \<not> okAddr then \<lparr>response = w4, calls = []\<rparr>
               else
                 (let (ready, w5) = readyToStart e w4 (StartAt (Config hs)) in
                  if \<not> ready then \<lparr>response = w5, calls = []\<rparr>
                  else
                    (case BindAddress e (SkyAddr bindReq) of
                       Inl err \<Rightarrow>
                         \<lparr>response = ErrResponse w5 StatusBadRequest [err],
                          calls = [CallBindAddress (SkyAddr bindReq)]\<rparr>
                     | Inr btcAddr \<Rightarrow>
                         \<lparr>response =
                            JSONResponse w5
                              (marshal_BindResponse
                                 \<lparr>DepositAddress = btcAddr, CoinType = CoinTypeBTC\<rparr>),
                          calls = [CallBindAddress (SkyAddr bindReq)]\<rparr>)))))"

definition StatusHandler :: "'ds Env \<Rightarrow> httpServer \<Rightarrow> Request \<Rightarrow> ResponseWriter \<Rightarrow> Served" where
  "StatusHandler e hs r w =
    (let (okMethod, w1) = validMethod w r [MethodGet] in
     if \<not> okMethod then \<lparr>response = w1, calls = []\<rparr>
     else
       (let skyAddr = Header_Get (Query r) ''skyaddr'' in
        if skyAddr = [] then
          \<lparr>response = errorResponse w1 StatusBadRequest ''Missing skyaddr'', calls = []\<rparr>
        else
          (let (okAddr, w2) = verifySkycoinAddress e w1 skyAddr in
           if \<not> okAddr then \<lparr>response = w2, calls = []\<rparr>
           else
             (let (ready, w3) = readyToStart e w2 (StartAt (Config hs)) in
              if \<not> ready then \<lparr>response = w3, calls = []\<rparr>
              else
                (case GetDepositStatuses e skyAddr of
                   Inl err \<Rightarrow>
                     \<lparr>response = ErrResponse w3 StatusBadRequest [err],
                      calls = [CallGetDepositStatuses skyAddr]\<rparr>
                 | Inr depositStatuses \<Rightarrow>
                     \<lparr>response =
                        JSONResponse w3
                          (marshal_StatusResponse (encodeStatus e)
                             \<lparr>Statuses = depositStatuses\<rparr>),
                      calls = [CallGetDepositStatuses skyAddr]\<rparr>)))))"

subsection \<open>Concrete instances\<close>

text \<open>A schedule in which every serve call returns \<open>err\<close> and \<^verbatim>\<open>hs.quit\<close> is found as \<open>q\<close>;
  a drain that reports no error.\<close>

definition demoSchedule :: "error \<Rightarrow> chan option \<Rightarrow> Schedule" where
  "demoSchedule err q =
    \<lparr>httpServe = err, httpsServe = (\<lambda>cert key. err), selected = RecvDone, quitSeen = q\<rparr>"

definition noDrainError :: "string \<Rightarrow> Server \<Rightarrow> error" where
  "noDrainError proto srv = None"

definition httpOnly :: httpServer where
  "httpOnly = newHTTPServer (mkConfig ''0.0.0.0:80'' [] [] [] [])"

definition autoTLS :: httpServer where
  "autoTLS = newHTTPServer (mkConfig ''0.0.0.0:80'' ''0.0.0.0:443'' ''example.com'' [] [])"

text \<open>An environment for the handlers: the clock reads \<open>t\<close>, the body decodes to \<open>req\<close>, every
  address but \<open>''bad''\<close> decodes, the service binds every address to one deposit address and
  reports the statuses \<open>sts\<close>. A JSON POST, and a GET with the \<^verbatim>\<open>skyaddr\<close> query parameter.
  The servers above start at instant 1000.\<close>

definition demoEnv :: "int \<Rightarrow> bindRequest \<Rightarrow> string list \<Rightarrow> string Env" where
  "demoEnv t req sts =
    \<lparr>now = t,
     formatTime = (\<lambda>t. ''2017-09-01 00:00:00 +0000 UTC''),
     decodeBody = (\<lambda>b. Inr req),
     DecodeBase58Address = (\<lambda>a. if a = ''bad'' then Some ''Invalid base58 character'' else None),
     BindAddress = (\<lambda>a. Inr ''1PA8ijz3kbH6Sc7YhKrqqdgVcM7nJVnFmw''),
     GetDepositStatuses = (\<lambda>a. Inr sts),
     encodeStatus = JString\<rparr>"

definition skyAddress :: string where
  "skyAddress = ''2do3K1YLMFiDBeoTqudYvyoU1hoYb8Ey7mR''"

definition postTo :: "string \<Rightarrow> string \<Rightarrow> Request" where
  "postTo meth contentType =
    \<lparr>Method = meth, ReqHeader = [''Content-Type'' \<mapsto> [contentType]], Body = ''{}'',
     Query = Map.empty\<rparr>"

definition postJSON :: Request where
  "postJSON = postTo ''POST'' ''application/json''"

definition getStatus :: "string \<Rightarrow> Request" where
  "getStatus addr =
    \<lparr>Method = ''GET'', ReqHeader = Map.empty, Body = [], Query = [''skyaddr'' \<mapsto> [addr]]\<rparr>"

subsection \<open>The configuration validator\<close>

text \<open>
  Claim C4. \<^verbatim>\<open>Validate\<close> returns an error for every configuration in which both listen
  addresses are empty; in which \<^verbatim>\<open>HTTPSAddr\<close> is set but neither \<^verbatim>\<open>AutoTLSHost\<close> nor
  a full certificate/key pair is; in which exactly one of \<^verbatim>\<open>TLSCert\<close>, \<^verbatim>\<open>TLSKey\<close> is
  set; in which both \<^verbatim>\<open>AutoTLSHost\<close> and a certificate/key pair are set; and in which a
  TLS option is set while \<^verbatim>\<open>HTTPSAddr\<close> is empty. A configuration with only
  \<^verbatim>\<open>HTTPAddr\<close> set (every TLS field empty) returns \<^verbatim>\<open>nil\<close>.
\<close>

theorem Validate_cases:
  "(HTTPAddr c = [] \<and> HTTPSAddr c = [] \<longrightarrow> Validate c \<noteq> None) \<and>
   (HTTPSAddr c \<noteq> [] \<and> AutoTLSHost c = [] \<and> \<not> (TLSCert c \<noteq> [] \<and> TLSKey c \<noteq> [])
      \<longrightarrow> Validate c \<noteq> None) \<and>
   ((TLSCert c = []) \<noteq> (TLSKey c = []) \<longrightarrow> Validate c \<noteq> None) \<and>
   (AutoTLSHost c \<noteq> [] \<and> TLSCert c \<noteq> [] \<and> TLSKey c \<noteq> [] \<longrightarrow> Validate c \<noteq> None) \<and>
   (HTTPSAddr c = [] \<and> (AutoTLSHost c \<noteq> [] \<or> TLSCert c \<noteq> [] \<or> TLSKey c \<noteq> [])
      \<longrightarrow> Validate c \<noteq> None) \<and>
   (HTTPAddr c \<noteq> [] \<and> HTTPSAddr c = [] \<and> AutoTLSHost c = [] \<and> TLSCert c = [] \<and> TLSKey c = []
      \<longrightarrow> Validate c = None)"
  unfolding Validate_def by auto

theorem Validate_cases_witness:
  "Validate (mkConfig [] [] [] [] []) \<noteq> None \<and>
   Validate (mkConfig [] ''0.0.0.0:443'' [] ''cert.pem'' []) \<noteq> None \<and>
   Validate (mkConfig ''0.0.0.0:80'' ''0.0.0.0:443'' ''example.com'' [] ''key.pem'') \<noteq> None \<and>
   Validate (mkConfig [] ''0.0.0.0:443'' ''example.com'' ''cert.pem'' ''key.pem'') \<noteq> None \<and>
   Validate (mkConfig ''0.0.0.0:80'' [] [] ''cert.pem'' ''key.pem'') \<noteq> None \<and>
   Validate (mkConfig ''0.0.0.0:80'' [] [] [] []) = None"
  using Validate_cases [of "mkConfig [] [] [] [] []"]
    Validate_cases [of "mkConfig [] ''0.0.0.0:443'' [] ''cert.pem'' []"]
    Validate_cases [of "mkConfig ''0.0.0.0:80'' ''0.0.0.0:443'' ''example.com'' [] ''key.pem''"]
    Validate_cases [of "mkConfig [] ''0.0.0.0:443'' ''example.com'' ''cert.pem'' ''key.pem''"]
    Validate_cases [of "mkConfig ''0.0.0.0:80'' [] [] ''cert.pem'' ''key.pem''"]
    Validate_cases [of "mkConfig ''0.0.0.0:80'' [] [] [] []"]
  by (simp add: mkConfig_def)

subsection \<open>The listener lifecycle\<close>

lemma Run_fields:
  "runOutcome (Run s hs) = handleListenErr (quitSeen s) (serve s (fst (Run_setup hs)))"
  "runServer (Run s hs) = fst (Run_setup hs)"
  "runSecure (Run s hs) = snd (Run_setup hs)"
  by (simp_all add: Run_def split: prod.splits)

lemma Run_setup_secure:
  "snd (Run_setup hs) =
     configureSecureMiddleware (fst (Run_hosts (Config hs))) (snd (Run_hosts (Config hs)))"
  by (simp add: Run_setup_def Let_def split: prod.splits)

lemma Run_setup_httpOnly:
  "fst (Run_setup httpOnly) =
     httpOnly\<lparr>httpListener := Some (setupHTTPListener ''0.0.0.0:80''), quit := Some ChanOpen\<rparr>"
  by (simp add: Run_setup_def Run_hosts_def httpOnly_def newHTTPServer_def mkConfig_def Let_def)

text \<open>
  Claim C8. For every configuration, \<^verbatim>\<open>Run\<close> builds the security middleware so that: if
  \<^verbatim>\<open>AutoTLSHost\<close> is non-empty, \<^verbatim>\<open>AllowedHosts\<close> is exactly the one-element list of that
  host and \<^verbatim>\<open>SSLHost\<close> is that host; otherwise \<^verbatim>\<open>AllowedHosts\<close> is empty (every host
  allowed) and \<^verbatim>\<open>SSLHost\<close> is \<^verbatim>\<open>HTTPSAddr\<close>, and when that is empty the SSL redirect is
  off.
\<close>

theorem Run_secure_middleware:
  "(AutoTLSHost (Config hs) \<noteq> [] \<longrightarrow>
      AllowedHosts (runSecure (Run s hs)) = [AutoTLSHost (Config hs)] \<and>
      SSLHost (runSecure (Run s hs)) = AutoTLSHost (Config hs)) \<and>
   (AutoTLSHost (Config hs) = [] \<longrightarrow>
      AllowedHosts (runSecure (Run s hs)) = [] \<and>
      SSLHost (runSecure (Run s hs)) = HTTPSAddr (Config hs) \<and>
      (HTTPSAddr (Config hs) = [] \<longrightarrow> \<not> SSLRedirect (runSecure (Run s hs))))"
  by (simp add: Run_fields Run_setup_secure Run_hosts_def configureSecureMiddleware_def)

theorem Run_secure_middleware_witness:
  "AllowedHosts (runSecure (Run (demoSchedule None None) autoTLS)) = [''example.com''] \<and>
   SSLHost (runSecure (Run (demoSchedule None None) autoTLS)) = ''example.com'' \<and>
   AllowedHosts (runSecure (Run (demoSchedule None None) httpOnly)) = [] \<and>
   SSLHost (runSecure (Run (demoSchedule None None) httpOnly)) = [] \<and>
   \<not> SSLRedirect (runSecure (Run (demoSchedule None None) httpOnly))"
  using Run_secure_middleware [of autoTLS "demoSchedule None None"]
    Run_secure_middleware [of httpOnly "demoSchedule None None"]
  by (simp add: autoTLS_def httpOnly_def newHTTPServer_def mkConfig_def)




text \<open>The closing step of \<^verbatim>\<open>Shutdown\<close> on a server that \<^verbatim>\<open>Run\<close> has set up leaves the gate
  closed.\<close>

lemma closeQuit_after_Run:
  "closeQuit (runServer (Run s hs)) =
     Inr ((runServer (Run s hs))\<lparr>quit := Some ChanClosed\<rparr>, [CloseQuit])"
  by (simp add: Run_fields Run_setup_def Let_def closeQuit_def split: prod.splits)

lemma Shutdown_quit_nil: "Shutdown drain hs = Inr (hs', es) \<Longrightarrow> quit hs' = None"
  by (auto simp: Shutdown_def closeQuit_def split: option.splits chan.splits sum.splits)

lemma Shutdown_nil_gate:
  "quit hs = None \<Longrightarrow>
   Shutdown drain hs =
     Inr (hs, shutdown drain ''HTTP'' (httpListener hs) @ shutdown drain ''HTTPS'' (httpsListener hs))"
  by (simp add: Shutdown_def closeQuit_def)

lemma CloseQuit_notin_shutdown: "CloseQuit \<notin> set (shutdown drain proto ln)"
  by (simp add: shutdown_def split: option.splits)

lemma Shutdown_running_httpOnly:
  "Shutdown noDrainError (runServer (Run s httpOnly)) =
     Inr (httpOnly\<lparr>httpListener := Some (setupHTTPListener ''0.0.0.0:80'')\<rparr>,
          [CloseQuit, ListenerShutdown ''HTTP'' shutdownTimeout])"
  by (simp add: Run_fields Run_setup_httpOnly)
    (simp add: Shutdown_def closeQuit_def shutdown_def noDrainError_def httpOnly_def
      newHTTPServer_def)

text \<open>
  Claim C9. \<^verbatim>\<open>Shutdown\<close> on a server with no run active (\<^verbatim>\<open>quit\<close> is \<^verbatim>\<open>nil\<close> and no
  listener was created) closes nothing and returns without a panic; after any \<^verbatim>\<open>Shutdown\<close>
  that completes, \<^verbatim>\<open>quit\<close> is \<^verbatim>\<open>nil\<close>, so a second \<^verbatim>\<open>Shutdown\<close> right after it returns
  without a panic too, closing nothing.
\<close>

theorem Shutdown_idle_and_repeated:
  "(quit hs = None \<and> httpListener hs = None \<and> httpsListener hs = None \<longrightarrow>
      Shutdown drain hs = Inr (hs, [])) \<and>
   (Shutdown drain hs = Inr (hs', es) \<longrightarrow>
      quit hs' = None \<and>
      (\<exists>hs'' es'. Shutdown drain' hs' = Inr (hs'', es') \<and> CloseQuit \<notin> set es'))"
proof (intro conjI impI)
  assume "quit hs = None \<and> httpListener hs = None \<and> httpsListener hs = None"
  then show "Shutdown drain hs = Inr (hs, [])"
    by (simp add: Shutdown_nil_gate shutdown_def)
next
  assume "Shutdown drain hs = Inr (hs', es)"
  then show "quit hs' = None" by (rule Shutdown_quit_nil)
  then show "\<exists>hs'' es'. Shutdown drain' hs' = Inr (hs'', es') \<and> CloseQuit \<notin> set es'"
    by (simp add: Shutdown_nil_gate CloseQuit_notin_shutdown)
qed

theorem Shutdown_idle_and_repeated_witness:
  "Shutdown noDrainError httpOnly = Inr (httpOnly, []) \<and>
   quit (httpOnly\<lparr>httpListener := Some (setupHTTPListener ''0.0.0.0:80'')\<rparr>) = None \<and>
   (\<exists>hs'' es'.
      Shutdown noDrainError (httpOnly\<lparr>httpListener := Some (setupHTTPListener ''0.0.0.0:80'')\<rparr>) =
        Inr (hs'', es') \<and> CloseQuit \<notin> set es')"
  using Shutdown_idle_and_repeated [where hs = httpOnly and drain = noDrainError]
    Shutdown_idle_and_repeated [where drain = noDrainError
      and hs = "runServer (Run (demoSchedule None None) httpOnly)"
      and hs' = "httpOnly\<lparr>httpListener := Some (setupHTTPListener ''0.0.0.0:80'')\<rparr>"
      and es = "[CloseQuit, ListenerShutdown ''HTTP'' shutdownTimeout]"
      and drain' = noDrainError]
    Shutdown_running_httpOnly [of "demoSchedule None None"]
  by (simp add: httpOnly_def newHTTPServer_def)

subsection \<open>The response writer\<close>

lemmas status_defs = StatusOK_def StatusBadRequest_def StatusForbidden_def
  StatusMethodNotAllowed_def StatusUnsupportedMediaType_def

lemma bodies_WriteHeader [simp]: "bodies (WriteHeader w code) = bodies w"
  by (simp add: WriteHeader_def split: option.splits)

lemma header_WriteHeader [simp]: "header (WriteHeader w code) = header w"
  by (simp add: WriteHeader_def split: option.splits)

lemma wroteHeader_WriteHeader:
  "wroteHeader (WriteHeader w code) =
     (case wroteHeader w of None \<Rightarrow> Some (code, header w) | Some x \<Rightarrow> Some x)"
  by (simp add: WriteHeader_def split: option.splits)

lemma bodies_ErrResponse [simp]: "bodies (ErrResponse w code msg) = bodies w @ [ErrBody code msg]"
  by (simp add: ErrResponse_def Write_def Let_def)

lemma bodies_JSONResponse [simp]: "bodies (JSONResponse w v) = bodies w @ [JSONBody v]"
  by (simp add: JSONResponse_def Write_def Let_def)

lemma wroteHeader_ErrResponse [simp]:
  "wroteHeader (ErrResponse w code msg) =
     (case wroteHeader w of None \<Rightarrow> Some (code, header w) | Some x \<Rightarrow> Some x)"
  by (simp add: ErrResponse_def Write_def Let_def wroteHeader_WriteHeader split: option.splits)

lemma wroteHeader_JSONResponse [simp]:
  "wroteHeader (JSONResponse w v) =
     (case wroteHeader w of None \<Rightarrow> Some (StatusOK, header w) | Some x \<Rightarrow> Some x)"
  by (simp add: JSONResponse_def Write_def Let_def wroteHeader_WriteHeader split: option.splits)

lemma header_ErrResponse [simp]: "header (ErrResponse w code msg) = header w"
  by (simp add: ErrResponse_def Write_def Let_def)

lemma bodies_errorResponse [simp]: "bodies (errorResponse w code err) = bodies w @ [ErrBody code []]"
  by (simp add: errorResponse_def)

lemma wroteHeader_errorResponse [simp]:
  "wroteHeader (errorResponse w code err) =
     (case wroteHeader w of None \<Rightarrow> Some (code, header w) | Some x \<Rightarrow> Some x)"
  by (simp add: errorResponse_def)

lemma header_errorResponse [simp]: "header (errorResponse w code err) = header w"
  by (simp add: errorResponse_def)

lemmas handler_defs = validMethod_def verifySkycoinAddress_def readyToStart_def
  MethodPost_def MethodGet_def Let_def

lemmas demo_defs = demoEnv_def postJSON_def postTo_def getStatus_def skyAddress_def
  httpOnly_def newHTTPServer_def mkConfig_def newResponseWriter_def
  Header_Get_def Header_Set_def CoinTypeBTC_def

subsection \<open>Method and content type\<close>

text \<open>
  Claim C6. For every Bind request whose method is not POST, the response status is 405
  and the \<^verbatim>\<open>Allow\<close> response header is \<^verbatim>\<open>POST\<close>; for every POST Bind request whose
  \<^verbatim>\<open>Content-Type\<close> header is not \<^verbatim>\<open>application/json\<close>, the response status is 415. (The
  response writer is one nothing was sent on.)
\<close>

theorem BindHandler_method_content_type:
  assumes "wroteHeader w = None"
  shows "(Method r \<noteq> ''POST'' \<longrightarrow>
            statusOf (response (BindHandler e hs r w)) = Some 405 \<and>
            sentHeader (response (BindHandler e hs r w)) ''Allow'' = ''POST'') \<and>
         (Method r = ''POST'' \<and> Header_Get (ReqHeader r) ''Content-Type'' \<noteq> ''application/json'' \<longrightarrow>
            statusOf (response (BindHandler e hs r w)) = Some 415)"
  using assms
  by (simp add: BindHandler_def handler_defs statusOf_def sentHeader_def
      Header_Get_def Header_Set_def status_defs)

theorem BindHandler_method_content_type_witness:
  "statusOf (response (BindHandler (demoEnv 2000 \<lparr>SkyAddr = skyAddress, CoinType = ''BTC''\<rparr> [])
      httpOnly (postTo ''GET'' ''application/json'') newResponseWriter)) = Some 405 \<and>
   sentHeader (response (BindHandler (demoEnv 2000 \<lparr>SkyAddr = skyAddress, CoinType = ''BTC''\<rparr> [])
      httpOnly (postTo ''GET'' ''application/json'') newResponseWriter)) ''Allow'' = ''POST'' \<and>
   statusOf (response (BindHandler (demoEnv 2000 \<lparr>SkyAddr = skyAddress, CoinType = ''BTC''\<rparr> [])
      httpOnly (postTo ''POST'' ''text/plain'') newResponseWriter)) = Some 415"
  using BindHandler_method_content_type [where w = newResponseWriter
      and r = "postTo ''GET'' ''application/json''" and hs = httpOnly
      and e = "demoEnv 2000 \<lparr>SkyAddr = skyAddress, CoinType = ''BTC''\<rparr> []"]
    BindHandler_method_content_type [where w = newResponseWriter
      and r = "postTo ''POST'' ''text/plain''" and hs = httpOnly
      and e = "demoEnv 2000 \<lparr>SkyAddr = skyAddress, CoinType = ''BTC''\<rparr> []"]
  by (simp add: postTo_def newResponseWriter_def Header_Get_def)

subsection \<open>The start-time gate\<close>

text \<open>
  Claim C5. For every Bind or Status request that passes the method, body and address
  checks (Bind: POST, JSON content type, a body that decodes with a non-empty
  \<^verbatim>\<open>skyaddr\<close> and the supported coin type, an address that decodes; Status: GET, a
  non-empty \<^verbatim>\<open>skyaddr\<close> that decodes), if the current time is not after \<^verbatim>\<open>StartAt\<close> the
  response status is 403, its one body carries the message \<^verbatim>\<open>Event starts at ...\<close>, and
  the service is not called.
\<close>

theorem start_gate_forbidden:
  assumes "wroteHeader w = None" and "bodies w = []" and "\<not> now e > StartAt (Config hs)"
  shows "(Method r = ''POST'' \<and> Header_Get (ReqHeader r) ''Content-Type'' = ''application/json'' \<and>
          decodeBody e (Body r) = Inr req \<and> SkyAddr req \<noteq> [] \<and>
          bindRequest.CoinType req = CoinTypeBTC \<and> DecodeBase58Address e (SkyAddr req) = None \<longrightarrow>
            statusOf (response (BindHandler e hs r w)) = Some 403 \<and>
            bodies (response (BindHandler e hs r w)) =
              [ErrBody 403 [''Event starts at '' @ formatTime e (StartAt (Config hs))]] \<and>
            calls (BindHandler e hs r w) = []) \<and>
         (Method r = ''GET'' \<and> Header_Get (Query r) ''skyaddr'' \<noteq> [] \<and>
          DecodeBase58Address e (Header_Get (Query r) ''skyaddr'') = None \<longrightarrow>
            statusOf (response (StatusHandler e hs r w)) = Some 403 \<and>
            bodies (response (StatusHandler e hs r w)) =
              [ErrBody 403 [''Event starts at '' @ formatTime e (StartAt (Config hs))]] \<and>
            calls (StatusHandler e hs r w) = [])"
  using assms
  by (simp add: BindHandler_def StatusHandler_def handler_defs statusOf_def status_defs)

theorem start_gate_forbidden_witness:
  "statusOf (response (BindHandler (demoEnv 1000 \<lparr>SkyAddr = skyAddress, CoinType = ''BTC''\<rparr> [])
      httpOnly postJSON newResponseWriter)) = Some 403 \<and>
   bodies (response (BindHandler (demoEnv 1000 \<lparr>SkyAddr = skyAddress, CoinType = ''BTC''\<rparr> [])
      httpOnly postJSON newResponseWriter)) =
     [ErrBody 403 [''Event starts at 2017-09-01 00:00:00 +0000 UTC'']] \<and>
   calls (BindHandler (demoEnv 1000 \<lparr>SkyAddr = skyAddress, CoinType = ''BTC''\<rparr> [])
      httpOnly postJSON newResponseWriter) = [] \<and>
   statusOf (response (StatusHandler (demoEnv 1000 \<lparr>SkyAddr = skyAddress, CoinType = ''BTC''\<rparr> [])
      httpOnly (getStatus skyAddress) newResponseWriter)) = Some 403 \<and>
   bodies (response (StatusHandler (demoEnv 1000 \<lparr>SkyAddr = skyAddress, CoinType = ''BTC''\<rparr> [])
      httpOnly (getStatus skyAddress) newResponseWriter)) =
     [ErrBody 403 [''Event starts at 2017-09-01 00:00:00 +0000 UTC'']] \<and>
   calls (StatusHandler (demoEnv 1000 \<lparr>SkyAddr = skyAddress, CoinType = ''BTC''\<rparr> [])
      httpOnly (getStatus skyAddress) newResponseWriter) = []"
  using start_gate_forbidden [where w = newResponseWriter and hs = httpOnly and r = postJSON
      and e = "demoEnv 1000 \<lparr>SkyAddr = skyAddress, CoinType = ''BTC''\<rparr> []"
      and req = "\<lparr>SkyAddr = skyAddress, CoinType = ''BTC''\<rparr>"]
    start_gate_forbidden [where w = newResponseWriter and hs = httpOnly
      and r = "getStatus skyAddress"
      and e = "demoEnv 1000 \<lparr>SkyAddr = skyAddress, CoinType = ''BTC''\<rparr> []"]
  by (simp add: demo_defs)

subsection \<open>Status with no deposits\<close>

text \<open>
  Claim C3, as stated: a GET Status request with a non-empty, valid \<^verbatim>\<open>skyaddr\<close>, after the
  start time, for which the service returns an empty list and no error, gets 200 and a
  JSON object in which the \<^verbatim>\<open>statuses\<close> field is present and is the empty list. At the
  request below every condition holds and the status is 200, but the body is the empty
  object: the field is tagged \<^verbatim>\<open>omitempty\<close> and a list of length 0 is left out.
\<close>

theorem StatusHandler_empty_statuses_counterexample:
  "Method (getStatus skyAddress) = ''GET'' \<and>
   Header_Get (Query (getStatus skyAddress)) ''skyaddr'' = skyAddress \<and>
   skyAddress \<noteq> [] \<and>
   DecodeBase58Address (demoEnv 2000 \<lparr>SkyAddr = [], CoinType = []\<rparr> []) skyAddress = None \<and>
   now (demoEnv 2000 \<lparr>SkyAddr = [], CoinType = []\<rparr> []) > StartAt (Config httpOnly) \<and>
   GetDepositStatuses (demoEnv 2000 \<lparr>SkyAddr = [], CoinType = []\<rparr> []) skyAddress = Inr [] \<and>
   statusOf (response (StatusHandler (demoEnv 2000 \<lparr>SkyAddr = [], CoinType = []\<rparr> [])
      httpOnly (getStatus skyAddress) newResponseWriter)) = Some 200 \<and>
   bodies (response (StatusHandler (demoEnv 2000 \<lparr>SkyAddr = [], CoinType = []\<rparr> [])
      httpOnly (getStatus skyAddress) newResponseWriter)) = [JSONBody (JObject [])] \<and>
   json_field (JObject []) ''statuses'' \<noteq> Some (JArray [])"
  by (simp add: StatusHandler_def handler_defs statusOf_def status_defs
      marshal_StatusResponse_def demo_defs)

text \<open>
  Claim C3, amended. For every GET Status request with a non-empty, valid \<^verbatim>\<open>skyaddr\<close>, after
  the start time, for which the service returns an empty list and no error, the service
  is called once, the response is 200 and its one body is a JSON object, not an error:
  the empty object, from which the \<^verbatim>\<open>statuses\<close> field is left out.
\<close>

theorem StatusHandler_empty_statuses:
  assumes "wroteHeader w = None" and "bodies w = []"
    and "Method r = ''GET''" and "Header_Get (Query r) ''skyaddr'' \<noteq> []"
    and "DecodeBase58Address e (Header_Get (Query r) ''skyaddr'') = None"
    and "now e > StartAt (Config hs)"
    and "GetDepositStatuses e (Header_Get (Query r) ''skyaddr'') = Inr []"
  shows "statusOf (response (StatusHandler e hs r w)) = Some 200 \<and>
         bodies (response (StatusHandler e hs r w)) = [JSONBody (JObject [])] \<and>
         json_field (JObject []) ''statuses'' = None \<and>
         calls (StatusHandler e hs r w) = [CallGetDepositStatuses (Header_Get (Query r) ''skyaddr'')]"
  using assms
  by (simp add: StatusHandler_def handler_defs statusOf_def status_defs marshal_StatusResponse_def)

theorem StatusHandler_empty_statuses_witness:
  "statusOf (response (StatusHandler (demoEnv 2000 \<lparr>SkyAddr = [], CoinType = []\<rparr> [])
      httpOnly (getStatus skyAddress) newResponseWriter)) = Some 200 \<and>
   bodies (response (StatusHandler (demoEnv 2000 \<lparr>SkyAddr = [], CoinType = []\<rparr> [])
      httpOnly (getStatus skyAddress) newResponseWriter)) = [JSONBody (JObject [])] \<and>
   calls (StatusHandler (demoEnv 2000 \<lparr>SkyAddr = [], CoinType = []\<rparr> [])
      httpOnly (getStatus skyAddress) newResponseWriter) = [CallGetDepositStatuses skyAddress]"
  using StatusHandler_empty_statuses [where w = newResponseWriter and hs = httpOnly
      and r = "getStatus skyAddress" and e = "demoEnv 2000 \<lparr>SkyAddr = [], CoinType = []\<rparr> []"]
  by (simp add: demo_defs)

text \<open>A list that is not empty is passed through under \<^verbatim>\<open>statuses\<close>.\<close>

lemma StatusHandler_statuses_passed:
  assumes "wroteHeader w = None" and "bodies w = []"
    and "Method r = ''GET''" and "Header_Get (Query r) ''skyaddr'' \<noteq> []"
    and "DecodeBase58Address e (Header_Get (Query r) ''skyaddr'') = None"
    and "now e > StartAt (Config hs)"
    and "GetDepositStatuses e (Header_Get (Query r) ''skyaddr'') = Inr (d # ds)"
  shows "bodies (response (StatusHandler e hs r w)) =
           [JSONBody (JObject [(''statuses'', JArray (map (encodeStatus e) (d # ds)))])]"
  using assms
  by (simp add: StatusHandler_def handler_defs marshal_StatusResponse_def)

subsection \<open>The coin type of a Bind response\<close>

text \<open>
  Claim C10. For every Bind request that reaches the successful response, the
  \<^verbatim>\<open>coin_type\<close> of the \<^verbatim>\<open>BindResponse\<close> is the constant \<^verbatim>\<open>CoinTypeBTC\<close>, whatever coin
  type the request body carried: every JSON document the handler writes is the encoding
  of a \<^verbatim>\<open>BindResponse\<close> whose \<^verbatim>\<open>CoinType\<close> is \<^verbatim>\<open>CoinTypeBTC\<close>, and its \<^verbatim>\<open>coin_type\<close> field
  is that string.
\<close>

theorem BindHandler_success_coin_type:
  assumes "bodies w = []" and "JSONBody j \<in> set (bodies (response (BindHandler e hs r w)))"
  shows "\<exists>btcAddr. j = marshal_BindResponse \<lparr>DepositAddress = btcAddr, CoinType = CoinTypeBTC\<rparr> \<and>
           json_field j ''coin_type'' = Some (JString CoinTypeBTC)"
  using assms
  by (auto simp: BindHandler_def handler_defs marshal_BindResponse_def CoinTypeBTC_def
      split: if_splits sum.splits option.splits prod.splits)

lemma BindHandler_success_demo:
  "bodies (response (BindHandler (demoEnv 2000 \<lparr>SkyAddr = skyAddress, CoinType = ''BTC''\<rparr> [])
      httpOnly postJSON newResponseWriter)) =
     [JSONBody (JObject [(''deposit_address'', JString ''1PA8ijz3kbH6Sc7YhKrqqdgVcM7nJVnFmw''),
                         (''coin_type'', JString ''BTC'')])]"
  by (simp add: BindHandler_def handler_defs status_defs marshal_BindResponse_def demo_defs)

theorem BindHandler_success_coin_type_witness:
  "\<exists>btcAddr.
     JObject [(''deposit_address'', JString ''1PA8ijz3kbH6Sc7YhKrqqdgVcM7nJVnFmw''),
              (''coin_type'', JString ''BTC'')] =
       marshal_BindResponse \<lparr>DepositAddress = btcAddr, CoinType = CoinTypeBTC\<rparr> \<and>
     json_field (JObject [(''deposit_address'', JString ''1PA8ijz3kbH6Sc7YhKrqqdgVcM7nJVnFmw''),
                          (''coin_type'', JString ''BTC'')]) ''coin_type'' =
       Some (JString CoinTypeBTC)"
  using BindHandler_success_coin_type [where w = newResponseWriter and hs = httpOnly
      and r = postJSON and e = "demoEnv 2000 \<lparr>SkyAddr = skyAddress, CoinType = ''BTC''\<rparr> []"
      and j = "JObject [(''deposit_address'', JString ''1PA8ijz3kbH6Sc7YhKrqqdgVcM7nJVnFmw''),
                        (''coin_type'', JString ''BTC'')]"]
    BindHandler_success_demo
  by (simp add: newResponseWriter_def CoinTypeBTC_def)

subsection \<open>A rejected coin type\<close>

text \<open>With the supported coin type a Bind request gets exactly one body, and a Status
  request always does; with any other coin type the handler answers 400 and goes on, to
  the service if the address decodes and the start time has passed.\<close>

lemma StatusHandler_one_body:
  assumes "bodies w = []"
  shows "length (bodies (response (StatusHandler e hs r w))) = 1"
  using assms
  by (auto simp: StatusHandler_def handler_defs split: if_splits sum.splits option.splits prod.splits)

lemma BindHandler_one_body:
  assumes "bodies w = []"
    and "\<And>req. decodeBody e (Body r) = Inr req \<Longrightarrow> bindRequest.CoinType req = CoinTypeBTC"
  shows "length (bodies (response (BindHandler e hs r w))) = 1"
  using assms
  by (auto simp: BindHandler_def handler_defs split: if_splits sum.splits option.splits prod.splits)

lemma BindHandler_rejected_coin_type:
  assumes "wroteHeader w = None" and "bodies w = []"
    and "Method r = ''POST''" and "Header_Get (ReqHeader r) ''Content-Type'' = ''application/json''"
    and "decodeBody e (Body r) = Inr req" and "SkyAddr req \<noteq> []"
    and "bindRequest.CoinType req \<noteq> CoinTypeBTC"
  shows "statusOf (response (BindHandler e hs r w)) = Some 400"
    and "length (bodies (response (BindHandler e hs r w))) = 2"
    and "DecodeBase58Address e (SkyAddr req) = None \<Longrightarrow> now e > StartAt (Config hs) \<Longrightarrow>
           calls (BindHandler e hs r w) = [CallBindAddress (SkyAddr req)]"
  using assms
  by (auto simp: BindHandler_def handler_defs statusOf_def status_defs
      split: if_splits sum.splits option.splits prod.splits)

text \<open>
  Claim C1 says that a well-formed JSON POST with a non-empty \<^verbatim>\<open>skyaddr\<close> and a missing
  or unsupported \<^verbatim>\<open>coin_type\<close> is answered with 400 and that \<^verbatim>\<open>BindAddress\<close> is not called.
  The code at such a request, with \<^verbatim>\<open>coin_type\<close> missing, a valid address and the start
  time passed: the status is 400, and \<^verbatim>\<open>BindAddress\<close> is called and its deposit address
  written after the error.
\<close>

theorem BindHandler_missing_coin_type_binds:
  "statusOf (response (BindHandler (demoEnv 2000 \<lparr>SkyAddr = skyAddress, CoinType = []\<rparr> [])
      httpOnly postJSON newResponseWriter)) = Some 400 \<and>
   calls (BindHandler (demoEnv 2000 \<lparr>SkyAddr = skyAddress, CoinType = []\<rparr> [])
      httpOnly postJSON newResponseWriter) = [CallBindAddress skyAddress] \<and>
   bodies (response (BindHandler (demoEnv 2000 \<lparr>SkyAddr = skyAddress, CoinType = []\<rparr> [])
      httpOnly postJSON newResponseWriter)) =
     [ErrBody 400 [],
      JSONBody (JObject [(''deposit_address'', JString ''1PA8ijz3kbH6Sc7YhKrqqdgVcM7nJVnFmw''),
                         (''coin_type'', JString ''BTC'')])]"
  by (simp add: BindHandler_def handler_defs statusOf_def status_defs marshal_BindResponse_def
      demo_defs)

text \<open>
  Claim C2 says that a rejected Bind or Status request gets exactly one error body, never
  an error body followed by another body. The code at a Bind request with the
  unsupported coin type \<^verbatim>\<open>ETH\<close> and an address that does not decode: two error bodies.
\<close>

theorem BindHandler_invalid_coin_type_two_bodies:
  "statusOf (response (BindHandler (demoEnv 2000 \<lparr>SkyAddr = ''bad'', CoinType = ''ETH''\<rparr> [])
      httpOnly postJSON newResponseWriter)) = Some 400 \<and>
   bodies (response (BindHandler (demoEnv 2000 \<lparr>SkyAddr = ''bad'', CoinType = ''ETH''\<rparr> [])
      httpOnly postJSON newResponseWriter)) =
     [ErrBody 400 [], ErrBody 400 [''Invalid skycoin address: Invalid base58 character'']]"
  by (simp add: BindHandler_def handler_defs statusOf_def status_defs demo_defs)

end
